theory Spec2Isabelle
  imports Main
begin

section \<open>The access control service of codex\<close>

text \<open>
  A shallow embedding of \<^verbatim>\<open>src/codex/services/accessControlService.js\<close> over the
  two mongoose collections it reads and writes: \<^verbatim>\<open>Acl\<close> (the schema at the end of
  \<^verbatim>\<open>src/README.md\<close>) and \<^verbatim>\<open>User\<close> (the first schema of
  \<^verbatim>\<open>src/unnamed/part_001\<close>).

  Conventions of the embedding:
  \<^item> an ObjectId is a natural number; every id a function receives is taken to be a
    well-formed ObjectId, so \<^verbatim>\<open>new mongoose.Types.ObjectId(x)\<close> is the identity;
  \<^item> a \<^verbatim>\<open>Date\<close> is an integer (milliseconds); the clock reading \<^verbatim>\<open>new Date()\<close> of a
    call is the parameter \<open>now\<close>;
  \<^item> the collection is a list in natural order, the order in which a \<^verbatim>\<open>find\<close> without
    a sort returns documents; an insert appends;
  \<^item> a function that writes takes the database and returns the new one beside its
    result; a function that only reads returns its result alone;
  \<^item> \<^verbatim>\<open>throw\<close> and a rejected \<^verbatim>\<open>save()\<close> are \<open>Inl\<close> of an error value.
\<close>

subsection \<open>Documents\<close>

text \<open>
  \<^verbatim>\<open>expiresAt: { type: Date }\<close> has three states in a stored document: the field is
  missing, the field holds \<^verbatim>\<open>null\<close>, or it holds a date. MongoDB tells them apart:
  \<^verbatim>\<open>{ $exists: false }\<close> matches only the first, \<^verbatim>\<open>{ $gt: d }\<close> only a later date.
  For \<^verbatim>\<open>granteeId\<close> and \<^verbatim>\<open>granteeName\<close> the service never asks \<^verbatim>\<open>$exists\<close>; an equality
  match against \<^verbatim>\<open>null\<close> holds for a missing field and for a \<^verbatim>\<open>null\<close> one alike, so
  \<open>None\<close> stands for both.
\<close>

datatype expiry = Missing | Null | At int

record acl =
  aclId :: nat
  resourceType :: string
  resourceId :: nat
  granteeType :: string
  granteeId :: "nat option"
  granteeName :: "string option"
  permission :: string
  grantedBy :: nat
  grantedAt :: int
  expiresAt :: expiry
  active :: bool
  createdAt :: int
  updatedAt :: int

record user =
  username :: string
  displayName :: "string option"
  groups :: "string list"

record db =
  acls :: "acl list"
  users :: "nat \<Rightarrow> user option"
  nextId :: nat

subsection \<open>Permission constants\<close>

definition READ :: string where "READ = ''read''"
definition WRITE :: string where "WRITE = ''write''"
definition DELETE :: string where "DELETE = ''delete''"
definition ADMIN :: string where "ADMIN = ''admin''"

text \<open>\<^verbatim>\<open>Object.values(PERMISSIONS)\<close>, in the order of the object literal.\<close>

definition PERMISSIONS_values :: "string list" where
  "PERMISSIONS_values = [READ, WRITE, DELETE, ADMIN]"

subsection \<open>Query fragments\<close>

text \<open>
  The fragment every read query carries:
  \<^verbatim>\<open>$or: [{ expiresAt: { $exists: false } }, { expiresAt: { $gt: new Date() } }]\<close>.
\<close>

definition notExpired :: "int \<Rightarrow> acl \<Rightarrow> bool" where
  "notExpired now a = (case expiresAt a of Missing \<Rightarrow> True | Null \<Rightarrow> False | At t \<Rightarrow> now < t)"

text \<open>\<^verbatim>\<open>granteeName: { $in: user.groups }\<close>: the stored name is one of the strings.\<close>

definition nameIn :: "string list \<Rightarrow> acl \<Rightarrow> bool" where
  "nameIn gs a = (case granteeName a of None \<Rightarrow> False | Some n \<Rightarrow> n \<in> set gs)"

text \<open>\<^verbatim>\<open>Acl.findOne(q)\<close> is the first document matching \<open>q\<close>, or \<^verbatim>\<open>null\<close>: \<^const>\<open>find\<close>.\<close>

subsection \<open>hasPermission\<close>

definition hasPermission :: "db \<Rightarrow> int \<Rightarrow> nat \<Rightarrow> string \<Rightarrow> nat \<Rightarrow> string \<Rightarrow> bool" where
  "hasPermission d now userId rt rid p =
    (let adminPermission = find (\<lambda>a. resourceType a = rt \<and> resourceId a = rid \<and>
            granteeType a = ''user'' \<and> granteeId a = Some userId \<and>
            permission a = ADMIN \<and> active a \<and> notExpired now a) (acls d)
     in if adminPermission \<noteq> None then True
     else let directPermission = find (\<lambda>a. resourceType a = rt \<and> resourceId a = rid \<and>
            granteeType a = ''user'' \<and> granteeId a = Some userId \<and>
            permission a = p \<and> active a \<and> notExpired now a) (acls d)
     in if directPermission \<noteq> None then True
     else let groupPermission =
            (case users d userId of
               None \<Rightarrow> None
             | Some u \<Rightarrow>
                 if groups u \<noteq> [] then
                   find (\<lambda>a. resourceType a = rt \<and> resourceId a = rid \<and>
                     granteeType a = ''group'' \<and> nameIn (groups u) a \<and>
                     permission a = p \<and> active a \<and> notExpired now a) (acls d)
                 else None)
     in if groupPermission \<noteq> None then True
     else let publicPermission = find (\<lambda>a. resourceType a = rt \<and> resourceId a = rid \<and>
            granteeType a = ''public'' \<and>
            permission a = p \<and> active a \<and> notExpired now a) (acls d)
     in publicPermission \<noteq> None)"

subsection \<open>getPermissionHierarchy\<close>

definition getPermissionHierarchy :: "string \<Rightarrow> string list" where
  "getPermissionHierarchy p =
    (if p = ADMIN then [ADMIN, DELETE, WRITE, READ]
     else if p = DELETE then [DELETE, WRITE, READ]
     else if p = WRITE then [WRITE, READ]
     else if p = READ then [READ]
     else [])"

subsection \<open>getUserAccessibleResources\<close>

text \<open>
  The \<^verbatim>\<open>resourceId\<close> of a hydrated document is a JavaScript object, an instance of
  \<^verbatim>\<open>ObjectId\<close>; every document a query returns carries an instance of its own. The
  function collects these objects in a \<^verbatim>\<open>Set\<close>, and a \<^verbatim>\<open>Set\<close> compares objects
  by identity (SameValueZero), not by the id they hold. So the embedding keeps both: the
  reference of the object and the id in it. References are handed out in the order the
  documents arrive: first the direct query's, then the group query's, then the public
  query's.
\<close>

record objectId =
  objRef :: nat
  objValue :: nat

definition resourceIdObjects :: "nat \<Rightarrow> acl list \<Rightarrow> objectId list" where
  "resourceIdObjects base docs =
     map (\<lambda>(i, a). \<lparr>objRef = i, objValue = resourceId a\<rparr>) (enumerate base docs)"

text \<open>\<^verbatim>\<open>Set.prototype.add\<close> on objects, and \<^verbatim>\<open>[...new Set(xs)]\<close>: insertion order, first
  occurrence kept.\<close>

definition Set_add :: "objectId list \<Rightarrow> objectId \<Rightarrow> objectId list" where
  "Set_add s x = (if objRef x \<in> set (map objRef s) then s else s @ [x])"

definition newSet :: "objectId list \<Rightarrow> objectId list" where
  "newSet xs = foldl Set_add [] xs"

definition getUserAccessibleResources :: "db \<Rightarrow> int \<Rightarrow> nat \<Rightarrow> string \<Rightarrow> string \<Rightarrow> objectId list" where
  "getUserAccessibleResources d now userId rt p =
    (let directAcls = filter (\<lambda>a. resourceType a = rt \<and>
            granteeType a = ''user'' \<and> granteeId a = Some userId \<and>
            permission a \<in> set (getPermissionHierarchy p) \<and> active a \<and> notExpired now a) (acls d);
         groupAcls =
            (case users d userId of
               None \<Rightarrow> []
             | Some u \<Rightarrow>
                 if groups u \<noteq> [] then
                   filter (\<lambda>a. resourceType a = rt \<and>
                     granteeType a = ''group'' \<and> nameIn (groups u) a \<and>
                     permission a \<in> set (getPermissionHierarchy p) \<and> active a \<and> notExpired now a) (acls d)
                 else []);
         publicAcls = filter (\<lambda>a. resourceType a = rt \<and>
            granteeType a = ''public'' \<and>
            permission a \<in> set (getPermissionHierarchy p) \<and> active a \<and> notExpired now a) (acls d);
         directResourceIds = resourceIdObjects 0 directAcls;
         groupResourceIds = resourceIdObjects (length directAcls) groupAcls;
         publicResourceIds = resourceIdObjects (length directAcls + length groupAcls) publicAcls;
         allResourceIds = newSet (directResourceIds @ groupResourceIds @ publicResourceIds)
     in allResourceIds)"

subsection \<open>grantPermission\<close>

text \<open>
  The two \<^verbatim>\<open>throw new Error(...)\<close> of the function, and the \<^verbatim>\<open>ValidationError\<close> with
  which mongoose rejects \<^verbatim>\<open>save()\<close> when a path fails its schema validators (it lists
  the failing paths; nothing is written then).
\<close>

datatype error =
    InvalidPermission string
  | UserNotFound nat
  | ValidationError "string list"

definition resourceType_enum :: "string list" where
  "resourceType_enum = [''document'', ''folder'', ''system'']"

definition granteeType_enum :: "string list" where
  "granteeType_enum = [''user'', ''group'', ''role'', ''public'']"

definition permission_enum :: "string list" where
  "permission_enum = [''read'', ''write'', ''delete'', ''admin'']"

definition validate :: "acl \<Rightarrow> string list" where
  "validate a =
     (if resourceType a \<in> set resourceType_enum then [] else [''resourceType'']) @
     (if granteeType a \<in> set granteeType_enum then [] else [''granteeType'']) @
     (if permission a \<in> set permission_enum then [] else [''permission''])"

text \<open>\<^verbatim>\<open>aclEntry.save()\<close>: validate, then insert. The insert appends the document and
  advances the generator of \<^verbatim>\<open>_id\<close>s.\<close>

definition save :: "db \<Rightarrow> acl \<Rightarrow> (error + acl) \<times> db" where
  "save d a =
     (if validate a = [] then (Inr a, d\<lparr>acls := acls d @ [a], nextId := Suc (nextId d)\<rparr>)
      else (Inl (ValidationError (validate a)), d))"

text \<open>
  \<^verbatim>\<open>new Acl({...})\<close> with the arguments of \<^verbatim>\<open>grantPermission\<close>. The parameter is declared
  \<^verbatim>\<open>expiresAt = null\<close>, so a caller that passes no date stores \<^verbatim>\<open>null\<close>. The schema
  defaults fill \<^verbatim>\<open>grantedAt\<close> (\<^verbatim>\<open>Date.now\<close>), \<^verbatim>\<open>active\<close> (\<^verbatim>\<open>true\<close>) and the two
  timestamps. The first argument is the fresh \<^verbatim>\<open>_id\<close>.
\<close>

definition newAcl ::
  "nat \<Rightarrow> int \<Rightarrow> string \<Rightarrow> nat \<Rightarrow> string \<Rightarrow> nat option \<Rightarrow> string option \<Rightarrow> string \<Rightarrow> nat \<Rightarrow> int option
     \<Rightarrow> acl" where
  "newAcl i now rt rid gt gid gname p grantedById exp =
     \<lparr>aclId = i, resourceType = rt, resourceId = rid, granteeType = gt,
      granteeId = gid, granteeName = gname, permission = p, grantedBy = grantedById,
      grantedAt = now, expiresAt = (case exp of None \<Rightarrow> Null | Some t \<Rightarrow> At t),
      active = True, createdAt = now, updatedAt = now\<rparr>"

definition grantPermission ::
  "db \<Rightarrow> int \<Rightarrow> string \<Rightarrow> nat \<Rightarrow> string \<Rightarrow> nat option \<Rightarrow> string option \<Rightarrow> string \<Rightarrow> nat \<Rightarrow> int option
     \<Rightarrow> (error + acl) \<times> db" where
  "grantPermission d now rt rid gt gid gname p grantedById exp =
    (if p \<notin> set PERMISSIONS_values then (Inl (InvalidPermission p), d)
     else if gt = ''user'' \<and> gid \<noteq> None \<and> users d (the gid) = None
       then (Inl (UserNotFound (the gid)), d)
     else save d (newAcl (nextId d) now rt rid gt gid gname p grantedById exp))"

subsection \<open>revokePermission\<close>

text \<open>
  \<^verbatim>\<open>Acl.updateMany(filter, { active: false })\<close>; with \<^verbatim>\<open>timestamps: true\<close> mongoose also
  sets \<^verbatim>\<open>updatedAt\<close>. Every matched document had \<^verbatim>\<open>active: true\<close>, so every one is
  modified and \<^verbatim>\<open>modifiedCount\<close> is the number matched.
\<close>

definition revokeFilter :: "string \<Rightarrow> nat \<Rightarrow> string \<Rightarrow> nat option \<Rightarrow> string \<Rightarrow> acl \<Rightarrow> bool" where
  "revokeFilter rt rid gt gid p a =
     (resourceType a = rt \<and> resourceId a = rid \<and> granteeType a = gt \<and>
      granteeId a = gid \<and> permission a = p \<and> active a)"

definition revokePermission ::
  "db \<Rightarrow> int \<Rightarrow> string \<Rightarrow> nat \<Rightarrow> string \<Rightarrow> nat option \<Rightarrow> string \<Rightarrow> nat \<times> db" where
  "revokePermission d now rt rid gt gid p =
     (length (filter (revokeFilter rt rid gt gid p) (acls d)),
      d\<lparr>acls := map (\<lambda>a. if revokeFilter rt rid gt gid p a
                           then a\<lparr>active := False, updatedAt := now\<rparr> else a) (acls d)\<rparr>)"

subsection \<open>getResourcePermissions\<close>

text \<open>\<^verbatim>\<open>.populate('grantedBy', 'username displayName')\<close> replaces the grantor's id by
  the selected fields of the user document, or by \<^verbatim>\<open>null\<close> when there is none.\<close>

record grantor =
  grantorId :: nat
  grantorUsername :: string
  grantorDisplayName :: "string option"

definition populate :: "db \<Rightarrow> acl \<Rightarrow> acl \<times> grantor option" where
  "populate d a =
     (a, case users d (grantedBy a) of
           None \<Rightarrow> None
         | Some u \<Rightarrow> Some \<lparr>grantorId = grantedBy a, grantorUsername = username u,
                            grantorDisplayName = displayName u\<rparr>)"

definition getResourcePermissions :: "db \<Rightarrow> int \<Rightarrow> string \<Rightarrow> nat \<Rightarrow> (acl \<times> grantor option) list" where
  "getResourcePermissions d now rt rid =
     map (populate d)
       (filter (\<lambda>a. resourceType a = rt \<and> resourceId a = rid \<and> active a \<and> notExpired now a) (acls d))"

section \<open>Example databases\<close>

text \<open>One user, \<open>alice\<close> (id 7), a member of the group \<open>eng\<close>. No user has id 9. The
  grants below expire at time 1000, as a call of \<^verbatim>\<open>grantPermission\<close> with that date writes
  them; the examples are read at time 100.\<close>

definition alice :: user where
  "alice = \<lparr>username = ''alice'', displayName = Some ''Alice'', groups = [''eng'']\<rparr>"

text \<open>An active grant on a document, granted by user 7, as it is stored.\<close>

definition mkAcl :: "nat \<Rightarrow> nat \<Rightarrow> string \<Rightarrow> nat option \<Rightarrow> string option \<Rightarrow> string \<Rightarrow> int \<Rightarrow> expiry \<Rightarrow> acl" where
  "mkAcl i rid gt gid gn p t e =
     \<lparr>aclId = i, resourceType = ''document'', resourceId = rid, granteeType = gt, granteeId = gid,
      granteeName = gn, permission = p, grantedBy = 7, grantedAt = t, expiresAt = e,
      active = True, createdAt = t, updatedAt = t\<rparr>"

text \<open>Document 1 with an \<open>admin\<close> grant to alice herself.\<close>

definition db_admin :: db where
  "db_admin = \<lparr>acls = [mkAcl 0 1 ''user'' (Some 7) None ''admin'' 10 (At 1000)],
     users = [7 \<mapsto> alice], nextId = 1\<rparr>"

text \<open>The same grant, expired at time 50 and still active.\<close>

definition db_expired :: db where
  "db_expired = \<lparr>acls = [mkAcl 0 1 ''user'' (Some 7) None ''admin'' 10 (At 50)],
     users = [7 \<mapsto> alice], nextId = 1\<rparr>"

text \<open>Document 1 with a \<open>write\<close> grant to the group \<open>eng\<close>.\<close>

definition db_group_write :: db where
  "db_group_write = \<lparr>acls = [mkAcl 0 1 ''group'' None (Some ''eng'') ''write'' 10 (At 1000)],
     users = [7 \<mapsto> alice], nextId = 1\<rparr>"

text \<open>Document 1 with a \<open>read\<close> grant to alice and a public \<open>read\<close> grant.\<close>

definition db_direct_public :: db where
  "db_direct_public = \<lparr>acls = [mkAcl 0 1 ''user'' (Some 7) None ''read'' 10 (At 1000),
        mkAcl 1 1 ''public'' None (Some ''public'') ''read'' 11 (At 1000)],
     users = [7 \<mapsto> alice], nextId = 2\<rparr>"

text \<open>Document 1 with \<open>read\<close> grants to two groups, \<open>eng\<close> and \<open>ops\<close>, and a \<open>write\<close>
  grant to \<open>eng\<close>.\<close>

definition db_two_groups :: db where
  "db_two_groups = \<lparr>acls = [mkAcl 0 1 ''group'' None (Some ''eng'') ''read'' 10 (At 1000),
        mkAcl 1 1 ''group'' None (Some ''ops'') ''read'' 11 (At 1000),
        mkAcl 2 1 ''group'' None (Some ''eng'') ''write'' 12 (At 1000)],
     users = [7 \<mapsto> alice], nextId = 3\<rparr>"

text \<open>Two grants on document 1 whose natural order is not the order of \<open>grantedAt\<close>:
  MongoDB promises no insertion order for a query without a sort, and the clock that
  stamps \<open>grantedAt\<close> is the server's, which can step back.\<close>

definition db_unordered :: db where
  "db_unordered = \<lparr>acls = [mkAcl 0 1 ''user'' (Some 7) None ''admin'' 20 (At 1000),
        mkAcl 1 1 ''public'' None (Some ''public'') ''read'' 10 (At 1000)],
     users = [7 \<mapsto> alice], nextId = 2\<rparr>"

text \<open>\<open>db_admin\<close> after the same \<open>read\<close> grant on document 2 was made twice, at times 100
  and 200.\<close>

definition db_twice :: db where
  "db_twice =
     snd (grantPermission
            (snd (grantPermission db_admin 100 ''document'' 2 ''user'' (Some 7) None ''read'' 7 None))
            200 ''document'' 2 ''user'' (Some 7) None ''read'' 7 None)"

text \<open>No grant yet, and the database after the upload route's call for a new document 1:
  \<^verbatim>\<open>grantPermission('document', document._id, 'user', req.userId, null, PERMISSIONS.ADMIN,
  req.userId)\<close>, made by alice at time 10 with no expiry date.\<close>

definition db_users :: db where
  "db_users = \<lparr>acls = [], users = [7 \<mapsto> alice], nextId = 0\<rparr>"

definition db_uploaded :: db where
  "db_uploaded =
     snd (grantPermission db_users 10 ''document'' 1 ''user'' (Some 7) None ''admin'' 7 None)"

text \<open>Two \<open>read\<close> grants on document 1 to the groups \<open>eng\<close> and \<open>ops\<close>, as
  \<^verbatim>\<open>grantPermission\<close> writes them when the caller passes no grantee id for \<open>eng\<close> and the
  grantee id 5 for \<open>ops\<close>.\<close>

definition db_group_ids :: db where
  "db_group_ids =
     snd (grantPermission
            (snd (grantPermission db_users 10 ''document'' 1 ''group'' None (Some ''eng'') ''read'' 7 None))
            20 ''document'' 1 ''group'' (Some 5) (Some ''ops'') ''read'' 7 None)"

section \<open>Auxiliary facts\<close>

lemmas example_defs = alice_def mkAcl_def

lemmas const_defs = READ_def WRITE_def DELETE_def ADMIN_def PERMISSIONS_values_def
  resourceType_enum_def granteeType_enum_def permission_enum_def

lemma db_twice_eq:
  "db_twice = \<lparr>acls = [mkAcl 0 1 ''user'' (Some 7) None ''admin'' 10 (At 1000),
        mkAcl 1 2 ''user'' (Some 7) None ''read'' 100 Null,
        mkAcl 2 2 ''user'' (Some 7) None ''read'' 200 Null],
     users = [7 \<mapsto> alice], nextId = 3\<rparr>"
  by (simp add: db_twice_def db_admin_def grantPermission_def newAcl_def save_def validate_def
        const_defs example_defs)

lemma db_uploaded_eq:
  "db_uploaded = \<lparr>acls = [mkAcl 0 1 ''user'' (Some 7) None ''admin'' 10 Null],
     users = [7 \<mapsto> alice], nextId = 1\<rparr>"
  by (simp add: db_uploaded_def db_users_def grantPermission_def newAcl_def save_def validate_def
        const_defs example_defs)

lemma db_group_ids_eq:
  "db_group_ids = \<lparr>acls = [mkAcl 0 1 ''group'' None (Some ''eng'') ''read'' 10 Null,
        mkAcl 1 1 ''group'' (Some 5) (Some ''ops'') ''read'' 20 Null],
     users = [7 \<mapsto> alice], nextId = 2\<rparr>"
  by (simp add: db_group_ids_def db_users_def grantPermission_def newAcl_def save_def validate_def
        const_defs example_defs)

subsection \<open>Queries\<close>

lemma find_None_iff_ex: "(find P xs = None) = (\<not> (\<exists>x\<in>set xs. P x))"
  by (auto simp: find_None_iff)

lemma find_Some_iff_ex: "(\<exists>y. find P xs = Some y) = (\<exists>x\<in>set xs. P x)"
  using find_None_iff_ex[of P xs] by (cases "find P xs") auto

lemmas find_ex = find_None_iff_ex find_Some_iff_ex

lemma notExpired_iff:
  "notExpired now a \<longleftrightarrow> expiresAt a = Missing \<or> (\<exists>t. expiresAt a = At t \<and> now < t)"
  by (cases "expiresAt a") (simp_all add: notExpired_def)

text \<open>The decision as one existential over the collection: the four queries of
  \<^const>\<open>hasPermission\<close> side by side.\<close>

lemma hasPermission_iff:
  "hasPermission d now u rt rid p \<longleftrightarrow>
     (\<exists>a\<in>set (acls d). resourceType a = rt \<and> resourceId a = rid \<and> active a \<and> notExpired now a \<and>
        (granteeType a = ''user'' \<and> granteeId a = Some u \<and> (permission a = ADMIN \<or> permission a = p)
         \<or> granteeType a = ''group'' \<and> permission a = p \<and>
             (\<exists>usr. users d u = Some usr \<and> nameIn (groups usr) a)
         \<or> granteeType a = ''public'' \<and> permission a = p))"
proof (cases "users d u")
  case None
  then show ?thesis
    unfolding hasPermission_def Let_def by (simp add: find_ex) blast
next
  case (Some usr)
  show ?thesis
  proof (cases "groups usr = []")
    case True
    with Some show ?thesis
      unfolding hasPermission_def Let_def
      by (simp add: find_ex nameIn_def split: option.splits) blast
  next
    case False
    with Some show ?thesis
      unfolding hasPermission_def Let_def by (simp add: find_ex) blast
  qed
qed

subsection \<open>Revocation\<close>

lemma revokeFilter_after:
  "\<not> revokeFilter rt rid gt gid p
       (if revokeFilter rt rid gt gid p a then a\<lparr>active := False, updatedAt := now\<rparr> else a)"
  by (simp add: revokeFilter_def)

lemma none_in_map: "(\<And>b. \<not> P (f b)) \<Longrightarrow> \<forall>a\<in>set (map f xs). \<not> P a"
  by simp

lemma revoke_acls:
  "acls (snd (revokePermission d now rt rid gt gid p)) =
     map (\<lambda>a. if revokeFilter rt rid gt gid p a then a\<lparr>active := False, updatedAt := now\<rparr> else a)
       (acls d)"
  by (simp add: revokePermission_def)

lemma revoke_none_matching:
  assumes "\<forall>a\<in>set (acls d). \<not> revokeFilter rt rid gt gid p a"
  shows "revokePermission d now rt rid gt gid p = (0, d)"
proof -
  have "filter (revokeFilter rt rid gt gid p) (acls d) = []"
    using assms by (simp add: filter_empty_conv)
  moreover have "map (\<lambda>a. if revokeFilter rt rid gt gid p a
                        then a\<lparr>active := False, updatedAt := now\<rparr> else a) (acls d) = acls d"
    using assms by (simp add: map_idI)
  ultimately show ?thesis
    by (simp add: revokePermission_def)
qed

lemma revoke_active_nth:
  "i < length (acls d) \<Longrightarrow>
     active (acls (snd (revokePermission d now rt rid gt gid p)) ! i) =
       (active (acls d ! i) \<and> \<not> revokeFilter rt rid gt gid p (acls d ! i))"
  unfolding revoke_acls by simp

lemma revoke_nth:
  "i < length (acls d) \<Longrightarrow>
     acls (snd (revokePermission d now rt rid gt gid p)) ! i =
       (if revokeFilter rt rid gt gid p (acls d ! i)
        then (acls d ! i)\<lparr>active := False, updatedAt := now\<rparr> else acls d ! i)"
  unfolding revoke_acls by simp

subsection \<open>Granting\<close>

lemma PERMISSIONS_values_set:
  "set PERMISSIONS_values = {''read'', ''write'', ''delete'', ''admin''}"
  by (simp add: PERMISSIONS_values_def READ_def WRITE_def DELETE_def ADMIN_def)

lemma validate_newAcl:
  "validate (newAcl i now rt rid gt gid gn p gby e) = validate (newAcl i' now' rt rid' gt gid' gn' p gby' e')"
  by (simp add: validate_def newAcl_def)

lemma validate_ok:
  "rt \<in> {''document'', ''folder'', ''system''} \<Longrightarrow>
   gt \<in> {''user'', ''group'', ''role'', ''public''} \<Longrightarrow>
   p \<in> {''read'', ''write'', ''delete'', ''admin''} \<Longrightarrow>
   validate (newAcl i now rt rid gt gid gn p gby e) = []"
  by (simp add: validate_def newAcl_def resourceType_enum_def granteeType_enum_def
        permission_enum_def)

text \<open>What a successful call has checked and written.\<close>

lemma grantPermission_Inr:
  assumes "grantPermission d now rt rid gt gid gn p gby e = (Inr a, d')"
  shows "a = newAcl (nextId d) now rt rid gt gid gn p gby e"
    and "d' = d\<lparr>acls := acls d @ [a], nextId := Suc (nextId d)\<rparr>"
    and "p \<in> set PERMISSIONS_values"
    and "\<not> (gt = ''user'' \<and> gid \<noteq> None \<and> users d (the gid) = None)"
    and "validate (newAcl (nextId d) now rt rid gt gid gn p gby e) = []"
  using assms by (auto simp: grantPermission_def save_def split: if_splits)

text \<open>
  A record written by a call that passes no expiry date holds \<^verbatim>\<open>expiresAt: null\<close>. The
  read queries accept a missing field or a later date, so they match it at no time.
\<close>

lemma grantPermission_no_expiry_unmatched:
  assumes "grantPermission d now rt rid gt gid gn p gby None = (Inr a, d')"
  shows "expiresAt a = Null \<and> \<not> notExpired t a"
  using grantPermission_Inr(1)[OF assms] by (simp add: newAcl_def notExpired_def)

text \<open>
  A stored \<open>admin\<close> grant to the user that the first query matches (active, \<open>expiresAt\<close>
  missing or later than now) answers every request.
\<close>

lemma hasPermission_admin_record:
  assumes "a \<in> set (acls d)"
    and "resourceType a = rt" and "resourceId a = rid"
    and "granteeType a = ''user''" and "granteeId a = Some u"
    and "permission a = ''admin''" and "active a"
    and "expiresAt a = Missing \<or> (\<exists>t. expiresAt a = At t \<and> now < t)"
  shows "hasPermission d now u rt rid x"
proof -
  have ne: "notExpired now a"
    using assms(8) by (simp add: notExpired_iff)
  show ?thesis
    unfolding hasPermission_iff using assms(1-7) ne
    by (intro bexI[of _ a]) (simp_all add: ADMIN_def)
qed

section \<open>The claims\<close>

subsection \<open>hasPermission and the hierarchy\<close>

text \<open>
  Claim C1: an active, unexpired grant of \<open>g\<close>, reached through the user, group or public
  branch, makes \<^const>\<open>hasPermission\<close> true for every \<open>r\<close> in the closure of \<open>g\<close>; so a
  \<open>write\<close> grant to a group of the principal gives \<open>read\<close>.

  The code at such an input: alice is in \<open>eng\<close>, and \<open>eng\<close> holds \<open>write\<close> on document 1.
  The group query asks for \<^verbatim>\<open>permission: permission\<close>, the requested value itself; no
  query of \<^const>\<open>hasPermission\<close> consults \<^const>\<open>getPermissionHierarchy\<close>. The request for
  \<open>read\<close> is denied, the one for \<open>write\<close> is allowed, the one for \<open>admin\<close> is denied.
\<close>

theorem hasPermission_group_write_read:
  "hasPermission db_group_write 100 7 ''document'' 1 ''read'' = False
   \<and> hasPermission db_group_write 100 7 ''document'' 1 ''write'' = True
   \<and> hasPermission db_group_write 100 7 ''document'' 1 ''admin'' = False"
  by (simp add: hasPermission_def db_group_write_def example_defs const_defs notExpired_def
        nameIn_def)

subsection \<open>accessibleResources against hasPermission\<close>

text \<open>
  Claim C2: \<^const>\<open>getUserAccessibleResources\<close> returns exactly the resource ids for which
  \<^const>\<open>hasPermission\<close> is true.

  The code at two inputs. With an \<open>admin\<close> grant to alice on document 1, the check for
  \<open>read\<close> is true and the listing for \<open>read\<close> is empty: the listing asks for a stored
  permission in \<open>getPermissionHierarchy read = [read]\<close>. With only \<open>read\<close> grants on
  document 1, the listing for \<open>admin\<close> holds document 1 and the check for \<open>admin\<close> is
  false: \<open>getPermissionHierarchy admin\<close> is all four values.
\<close>

theorem accessible_differs_from_hasPermission:
  "hasPermission db_admin 100 7 ''document'' 1 ''read'' = True
   \<and> map objValue (getUserAccessibleResources db_admin 100 7 ''document'' ''read'') = []
   \<and> hasPermission db_direct_public 100 7 ''document'' 1 ''admin'' = False
   \<and> 1 \<in> set (map objValue (getUserAccessibleResources db_direct_public 100 7 ''document'' ''admin''))"
  by (simp add: hasPermission_def getUserAccessibleResources_def getPermissionHierarchy_def
        resourceIdObjects_def newSet_def Set_add_def enumerate_eq_zip
        db_admin_def db_direct_public_def example_defs const_defs notExpired_def nameIn_def)

subsection \<open>Duplicates in accessibleResources\<close>

text \<open>
  Claim C3: the result of \<^const>\<open>getUserAccessibleResources\<close> holds no resource id twice; a
  resource reached by a direct grant and by a public grant appears once.

  The code at such an input: document 1 is reached by alice's \<open>read\<close> grant and by the
  public \<open>read\<close> grant. The two documents carry two \<^verbatim>\<open>ObjectId\<close> objects, the \<^verbatim>\<open>Set\<close>
  keeps both, and the result holds the id of document 1 twice.
\<close>

theorem accessible_repeats_resource:
  "getUserAccessibleResources db_direct_public 100 7 ''document'' ''read'' =
     [\<lparr>objRef = 0, objValue = 1\<rparr>, \<lparr>objRef = 1, objValue = 1\<rparr>]
   \<and> map objValue (getUserAccessibleResources db_direct_public 100 7 ''document'' ''read'') = [1, 1]"
  by (simp add: getUserAccessibleResources_def getPermissionHierarchy_def
        resourceIdObjects_def newSet_def Set_add_def enumerate_eq_zip
        db_direct_public_def example_defs const_defs notExpired_def nameIn_def)

subsection \<open>revokePermission\<close>

text \<open>
  Claim C4: \<^const>\<open>revokePermission\<close> sets \<open>active\<close> to false on every active record that
  matches (resourceType, resourceId, granteeType, granteeId, permission), not only on
  one of them, and returns how many there were; every other record stays as it was. The
  same call made again changes nothing and returns 0. No call fails.
\<close>

theorem revokePermission_all_matching_idempotent:
  assumes "revokePermission d now rt rid gt gid p = (n, d')"
  shows "n = length (filter (\<lambda>a. resourceType a = rt \<and> resourceId a = rid \<and> granteeType a = gt \<and>
                  granteeId a = gid \<and> permission a = p \<and> active a) (acls d))
    \<and> length (acls d') = length (acls d)
    \<and> (\<forall>i<length (acls d).
          acls d' ! i =
            (if resourceType (acls d ! i) = rt \<and> resourceId (acls d ! i) = rid \<and>
                granteeType (acls d ! i) = gt \<and> granteeId (acls d ! i) = gid \<and>
                permission (acls d ! i) = p \<and> active (acls d ! i)
             then (acls d ! i)\<lparr>active := False, updatedAt := now\<rparr> else acls d ! i))
    \<and> users d' = users d
    \<and> revokePermission d' now' rt rid gt gid p = (0, d')"
proof -
  have d': "d' = snd (revokePermission d now rt rid gt gid p)"
    and n: "n = fst (revokePermission d now rt rid gt gid p)"
    using assms by simp_all
  have 1: "n = length (filter (\<lambda>a. resourceType a = rt \<and> resourceId a = rid \<and> granteeType a = gt \<and>
                  granteeId a = gid \<and> permission a = p \<and> active a) (acls d))"
    unfolding n by (simp add: revokePermission_def revokeFilter_def[abs_def])
  have 2: "length (acls d') = length (acls d)"
    unfolding d' revoke_acls by simp
  have 3: "\<forall>i<length (acls d).
          acls d' ! i =
            (if resourceType (acls d ! i) = rt \<and> resourceId (acls d ! i) = rid \<and>
                granteeType (acls d ! i) = gt \<and> granteeId (acls d ! i) = gid \<and>
                permission (acls d ! i) = p \<and> active (acls d ! i)
             then (acls d ! i)\<lparr>active := False, updatedAt := now\<rparr> else acls d ! i)"
    unfolding d' revoke_acls by (simp add: revokeFilter_def)
  have 4: "users d' = users d"
    unfolding d' by (simp add: revokePermission_def)
  have "\<forall>a\<in>set (acls d'). \<not> revokeFilter rt rid gt gid p a"
    unfolding d' revoke_acls by (rule none_in_map) (rule revokeFilter_after)
  then have 5: "revokePermission d' now' rt rid gt gid p = (0, d')"
    by (rule revoke_none_matching)
  show ?thesis by (intro conjI 1 2 3 4 5)
qed

text \<open>In \<open>db_twice\<close> two records match; the first call returns 2, the second 0.\<close>

theorem revokePermission_all_matching_idempotent_witness:
  "fst (revokePermission db_twice 300 ''document'' 2 ''user'' (Some 7) ''read'') = 2
   \<and> revokePermission (snd (revokePermission db_twice 300 ''document'' 2 ''user'' (Some 7) ''read''))
        400 ''document'' 2 ''user'' (Some 7) ''read''
      = (0, snd (revokePermission db_twice 300 ''document'' 2 ''user'' (Some 7) ''read''))"
proof -
  have e: "revokePermission db_twice 300 ''document'' 2 ''user'' (Some 7) ''read'' =
      (fst (revokePermission db_twice 300 ''document'' 2 ''user'' (Some 7) ''read''),
       snd (revokePermission db_twice 300 ''document'' 2 ''user'' (Some 7) ''read''))"
    by simp
  have "length (filter (\<lambda>a. resourceType a = ''document'' \<and> resourceId a = 2 \<and>
           granteeType a = ''user'' \<and> granteeId a = Some 7 \<and> permission a = ''read'' \<and> active a)
         (acls db_twice)) = 2"
    by (simp add: db_twice_eq mkAcl_def)
  with revokePermission_all_matching_idempotent[OF e, of 400] show ?thesis
    by simp
qed

text \<open>
  Claim C10 says that a call of \<^const>\<open>revokePermission\<close> for the grantee type \<open>group\<close>
  with no grantee id deactivates every active group grant of that permission on the
  resource, whatever group it names, so that no group's grant is revoked alone. The
  filter matches \<^verbatim>\<open>granteeId: null\<close>, and \<^const>\<open>grantPermission\<close> stores the grantee id a
  caller passes for a group. In \<open>db_group_ids\<close> the grant of \<open>ops\<close> carries the id 5: the
  call with no id deactivates the grant of \<open>eng\<close> and leaves that of \<open>ops\<close> active, and
  the call with the id 5 revokes the grant of \<open>ops\<close> alone.
\<close>

theorem revokePermission_group_with_id_kept:
  "map granteeName (acls db_group_ids) = [Some ''eng'', Some ''ops'']
   \<and> map active (acls db_group_ids) = [True, True]
   \<and> revokePermission db_group_ids 50 ''document'' 1 ''group'' None ''read''
       = (1, db_group_ids\<lparr>acls :=
            [(mkAcl 0 1 ''group'' None (Some ''eng'') ''read'' 10 Null)\<lparr>active := False, updatedAt := 50\<rparr>,
             mkAcl 1 1 ''group'' (Some 5) (Some ''ops'') ''read'' 20 Null]\<rparr>)
   \<and> map active (acls (snd (revokePermission db_group_ids 50 ''document'' 1 ''group'' (Some 5) ''read'')))
       = [True, False]"
  by (simp add: revokePermission_def revokeFilter_def db_group_ids_eq mkAcl_def)

text \<open>
  Claim C10, amended: the match of \<^const>\<open>revokePermission\<close> does not look at
  \<open>granteeName\<close>; it does look at the grantee id. A call for the grantee type \<open>group\<close> with
  no grantee id deactivates every active group grant of that permission on the
  resource whose grantee id is empty, whatever group it names, and leaves every record
  that carries a grantee id as it was. Whatever the arguments of a call, two active
  group grants with empty grantee id, of one permission on one resource, end with the
  same \<open>active\<close> flag: among these, the grant of one group is not revoked without the
  other's.
\<close>

theorem revokePermission_ignores_granteeName:
  "(\<forall>i<length (acls d).
       resourceType (acls d ! i) = rt \<and> resourceId (acls d ! i) = rid \<and>
       granteeType (acls d ! i) = ''group'' \<and> granteeId (acls d ! i) = None \<and>
       permission (acls d ! i) = p \<and> active (acls d ! i)
     \<longrightarrow> \<not> active (acls (snd (revokePermission d now rt rid ''group'' None p)) ! i))
   \<and> (\<forall>i<length (acls d). \<forall>j<length (acls d).
       granteeType (acls d ! i) = ''group'' \<and> granteeType (acls d ! j) = ''group'' \<and>
       granteeId (acls d ! i) = None \<and> granteeId (acls d ! j) = None \<and>
       resourceType (acls d ! i) = resourceType (acls d ! j) \<and>
       resourceId (acls d ! i) = resourceId (acls d ! j) \<and>
       permission (acls d ! i) = permission (acls d ! j) \<and>
       active (acls d ! i) \<and> active (acls d ! j)
     \<longrightarrow> active (acls (snd (revokePermission d now rt' rid' gt' gid' p')) ! i)
         = active (acls (snd (revokePermission d now rt' rid' gt' gid' p')) ! j))
   \<and> (\<forall>i<length (acls d).
       granteeId (acls d ! i) \<noteq> None
     \<longrightarrow> acls (snd (revokePermission d now rt rid ''group'' None p)) ! i = acls d ! i)"
proof (intro conjI allI impI)
  fix i
  assume "i < length (acls d)"
    and "resourceType (acls d ! i) = rt \<and> resourceId (acls d ! i) = rid \<and>
       granteeType (acls d ! i) = ''group'' \<and> granteeId (acls d ! i) = None \<and>
       permission (acls d ! i) = p \<and> active (acls d ! i)"
  then show "\<not> active (acls (snd (revokePermission d now rt rid ''group'' None p)) ! i)"
    by (simp add: revoke_active_nth revokeFilter_def)
next
  fix i j
  assume i: "i < length (acls d)" and j: "j < length (acls d)"
    and same: "granteeType (acls d ! i) = ''group'' \<and> granteeType (acls d ! j) = ''group'' \<and>
       granteeId (acls d ! i) = None \<and> granteeId (acls d ! j) = None \<and>
       resourceType (acls d ! i) = resourceType (acls d ! j) \<and>
       resourceId (acls d ! i) = resourceId (acls d ! j) \<and>
       permission (acls d ! i) = permission (acls d ! j) \<and>
       active (acls d ! i) \<and> active (acls d ! j)"
  from same have "revokeFilter rt' rid' gt' gid' p' (acls d ! i)
      = revokeFilter rt' rid' gt' gid' p' (acls d ! j)"
    by (simp add: revokeFilter_def)
  with same show "active (acls (snd (revokePermission d now rt' rid' gt' gid' p')) ! i)
         = active (acls (snd (revokePermission d now rt' rid' gt' gid' p')) ! j)"
    by (simp add: revoke_active_nth[OF i] revoke_active_nth[OF j])
next
  fix i
  assume i: "i < length (acls d)" and "granteeId (acls d ! i) \<noteq> None"
  then have "\<not> revokeFilter rt rid ''group'' None p (acls d ! i)"
    by (simp add: revokeFilter_def)
  then show "acls (snd (revokePermission d now rt rid ''group'' None p)) ! i = acls d ! i"
    by (simp add: revoke_nth[OF i])
qed

text \<open>In \<open>db_two_groups\<close> the \<open>read\<close> grants of \<open>eng\<close> (record 0) and \<open>ops\<close> (record 1) go
  together and the \<open>write\<close> grant of \<open>eng\<close> stays; in \<open>db_group_ids\<close> the grant of \<open>ops\<close>
  with its grantee id (record 1) stays.\<close>

theorem revokePermission_ignores_granteeName_witness:
  "\<not> active (acls (snd (revokePermission db_two_groups 50 ''document'' 1 ''group'' None ''read'')) ! 0)
   \<and> \<not> active (acls (snd (revokePermission db_two_groups 50 ''document'' 1 ''group'' None ''read'')) ! 1)
   \<and> active (acls (snd (revokePermission db_two_groups 50 ''document'' 1 ''group'' None ''read'')) ! 2)
   \<and> granteeName (acls db_two_groups ! 0) \<noteq> granteeName (acls db_two_groups ! 1)
   \<and> acls (snd (revokePermission db_group_ids 50 ''document'' 1 ''group'' None ''read'')) ! 1
       = mkAcl 1 1 ''group'' (Some 5) (Some ''ops'') ''read'' 20 Null"
proof -
  note t = revokePermission_ignores_granteeName[where d=db_two_groups and now=50
      and rt="''document''" and rid=1 and p="''read''"
      and rt'="''document''" and rid'=1 and gt'="''group''" and gid'=None and p'="''read''"]
  from t have a: "\<forall>i<length (acls db_two_groups).
       resourceType (acls db_two_groups ! i) = ''document'' \<and> resourceId (acls db_two_groups ! i) = 1 \<and>
       granteeType (acls db_two_groups ! i) = ''group'' \<and> granteeId (acls db_two_groups ! i) = None \<and>
       permission (acls db_two_groups ! i) = ''read'' \<and> active (acls db_two_groups ! i)
     \<longrightarrow> \<not> active (acls (snd (revokePermission db_two_groups 50 ''document'' 1 ''group'' None ''read'')) ! i)"
    by (rule conjunct1)
  have 0: "\<not> active (acls (snd (revokePermission db_two_groups 50 ''document'' 1 ''group'' None ''read'')) ! 0)"
    using a[rule_format, of 0] by (simp add: db_two_groups_def mkAcl_def)
  from t have b: "\<forall>i<length (acls db_two_groups). \<forall>j<length (acls db_two_groups).
       granteeType (acls db_two_groups ! i) = ''group'' \<and> granteeType (acls db_two_groups ! j) = ''group'' \<and>
       granteeId (acls db_two_groups ! i) = None \<and> granteeId (acls db_two_groups ! j) = None \<and>
       resourceType (acls db_two_groups ! i) = resourceType (acls db_two_groups ! j) \<and>
       resourceId (acls db_two_groups ! i) = resourceId (acls db_two_groups ! j) \<and>
       permission (acls db_two_groups ! i) = permission (acls db_two_groups ! j) \<and>
       active (acls db_two_groups ! i) \<and> active (acls db_two_groups ! j)
     \<longrightarrow> active (acls (snd (revokePermission db_two_groups 50 ''document'' 1 ''group'' None ''read'')) ! i)
         = active (acls (snd (revokePermission db_two_groups 50 ''document'' 1 ''group'' None ''read'')) ! j)"
    by blast
  have 1: "\<not> active (acls (snd (revokePermission db_two_groups 50 ''document'' 1 ''group'' None ''read'')) ! 1)"
    using b[rule_format, of 0 1] 0 by (simp add: db_two_groups_def mkAcl_def)
  have 2: "active (acls (snd (revokePermission db_two_groups 50 ''document'' 1 ''group'' None ''read'')) ! 2)"
    by (simp add: revokePermission_def revokeFilter_def db_two_groups_def mkAcl_def)
  have 3: "granteeName (acls db_two_groups ! 0) \<noteq> granteeName (acls db_two_groups ! 1)"
    by (simp add: db_two_groups_def mkAcl_def)
  note u = revokePermission_ignores_granteeName[where d=db_group_ids and now=50
      and rt="''document''" and rid=1 and p="''read''"
      and rt'="''document''" and rid'=1 and gt'="''group''" and gid'=None and p'="''read''"]
  from u have c: "\<forall>i<length (acls db_group_ids).
       granteeId (acls db_group_ids ! i) \<noteq> None
     \<longrightarrow> acls (snd (revokePermission db_group_ids 50 ''document'' 1 ''group'' None ''read'')) ! i
         = acls db_group_ids ! i"
    by blast
  have 4: "acls (snd (revokePermission db_group_ids 50 ''document'' 1 ''group'' None ''read'')) ! 1
       = mkAcl 1 1 ''group'' (Some 5) (Some ''ops'') ''read'' 20 Null"
    using c[rule_format, of 1] by (simp add: db_group_ids_eq mkAcl_def)
  show ?thesis by (intro conjI 0 1 2 3 4)
qed

subsection \<open>Expiry and the admin grant\<close>

text \<open>
  Claim C6: a grant whose \<open>expiresAt\<close> is in the past never satisfies
  \<^const>\<open>hasPermission\<close>, active or not: every query keeps only records that are active
  and whose \<open>expiresAt\<close> is missing or strictly later than now. So a true decision rests
  on such a record of the resource, and removing every record whose \<open>expiresAt\<close> is now
  or earlier changes no decision.
\<close>

theorem hasPermission_needs_unexpired:
  "(hasPermission d now u rt rid p \<longrightarrow>
      (\<exists>a\<in>set (acls d). resourceType a = rt \<and> resourceId a = rid \<and> active a \<and>
          (expiresAt a = Missing \<or> (\<exists>t. expiresAt a = At t \<and> now < t))))
   \<and> hasPermission (d\<lparr>acls := filter (\<lambda>a. \<not> (\<exists>t. expiresAt a = At t \<and> t \<le> now)) (acls d)\<rparr>)
         now u rt rid p
       = hasPermission d now u rt rid p"
proof -
  have 1: "hasPermission d now u rt rid p \<longrightarrow>
      (\<exists>a\<in>set (acls d). resourceType a = rt \<and> resourceId a = rid \<and> active a \<and>
          (expiresAt a = Missing \<or> (\<exists>t. expiresAt a = At t \<and> now < t)))"
    unfolding hasPermission_iff notExpired_iff by blast
  have keep: "notExpired now a \<Longrightarrow> \<not> (\<exists>t. expiresAt a = At t \<and> t \<le> now)" for a
    unfolding notExpired_iff by auto
  have 2: "hasPermission (d\<lparr>acls := filter (\<lambda>a. \<not> (\<exists>t. expiresAt a = At t \<and> t \<le> now)) (acls d)\<rparr>)
         now u rt rid p
       = hasPermission d now u rt rid p"
    unfolding hasPermission_iff using keep by auto
  from 1 2 show ?thesis by (rule conjI)
qed

text \<open>The \<open>admin\<close> grant of \<open>db_admin\<close> carries a decision; the same grant expired at 50
  carries none at time 100, nor at time 50 itself.\<close>

theorem hasPermission_needs_unexpired_witness:
  "hasPermission db_admin 100 7 ''document'' 1 ''read''
   \<and> (\<exists>a\<in>set (acls db_admin). resourceType a = ''document'' \<and> resourceId a = 1 \<and> active a \<and>
          (expiresAt a = Missing \<or> (\<exists>t. expiresAt a = At t \<and> 100 < t)))
   \<and> \<not> hasPermission db_expired 100 7 ''document'' 1 ''read''
   \<and> \<not> hasPermission db_expired 50 7 ''document'' 1 ''admin''"
proof -
  have h: "hasPermission db_admin 100 7 ''document'' 1 ''read''"
    by (simp add: hasPermission_def db_admin_def example_defs const_defs notExpired_def
          nameIn_def)
  have e: "\<exists>a\<in>set (acls db_admin). resourceType a = ''document'' \<and> resourceId a = 1 \<and> active a \<and>
          (expiresAt a = Missing \<or> (\<exists>t. expiresAt a = At t \<and> 100 < t))"
    using hasPermission_needs_unexpired[of db_admin 100 7 "''document''" 1 "''read''"] h
    by blast
  have x: "\<not> hasPermission db_expired 100 7 ''document'' 1 ''read''"
    using hasPermission_needs_unexpired[of db_expired 100 7 "''document''" 1 "''read''"]
    by (simp add: hasPermission_def db_expired_def example_defs const_defs)
  have y: "\<not> hasPermission db_expired 50 7 ''document'' 1 ''admin''"
    using hasPermission_needs_unexpired[of db_expired 50 7 "''document''" 1 "''admin''"]
    by (simp add: hasPermission_def db_expired_def example_defs const_defs)
  show ?thesis by (intro conjI h e x y)
qed

text \<open>
  Claim C7: granting \<open>admin\<close> to a principal on a resource, an active and unexpired direct
  user grant, makes \<^const>\<open>hasPermission\<close> true for that principal on that resource for
  each of \<open>read\<close>, \<open>write\<close>, \<open>delete\<close> and \<open>admin\<close>.

  The code at the grant the upload route makes: alice is granted \<open>admin\<close> on document 1
  with no expiry date. \<^const>\<open>grantPermission\<close> stores \<^verbatim>\<open>expiresAt: null\<close>; the queries of
  \<^const>\<open>hasPermission\<close> ask for a missing field or a later date and match the record at
  no time. The grant is stored and active, and all four requests are denied.
\<close>

theorem hasPermission_after_admin_grant:
  "fst (grantPermission db_users 10 ''document'' 1 ''user'' (Some 7) None ''admin'' 7 None)
     = Inr (mkAcl 0 1 ''user'' (Some 7) None ''admin'' 10 Null)
   \<and> hasPermission db_uploaded 100 7 ''document'' 1 ''read'' = False
   \<and> hasPermission db_uploaded 100 7 ''document'' 1 ''write'' = False
   \<and> hasPermission db_uploaded 100 7 ''document'' 1 ''delete'' = False
   \<and> hasPermission db_uploaded 100 7 ''document'' 1 ''admin'' = False"
  by (simp add: db_uploaded_eq hasPermission_def db_users_def grantPermission_def newAcl_def
        save_def validate_def example_defs const_defs notExpired_def nameIn_def)

subsection \<open>grantPermission\<close>

text \<open>
  Claim C5 says that \<^const>\<open>grantPermission\<close> rejects, before any write, a permission
  outside the four values and a malformed combination of grantee type and fields, such
  as the type \<open>user\<close> with no grantee id, and that it rejects the type \<open>user\<close> with an id
  that resolves to no user. The existence check is guarded by
  \<^verbatim>\<open>granteeType === 'user' && granteeId\<close>: with no id it is skipped, the schema does not
  require the field, and the record is written.
\<close>

theorem grantPermission_user_without_id_written:
  "grantPermission db_admin 100 ''document'' 2 ''user'' None None ''read'' 7 None =
     (Inr (mkAcl 1 2 ''user'' None None ''read'' 100 Null),
      db_admin\<lparr>acls := acls db_admin @ [mkAcl 1 2 ''user'' None None ''read'' 100 Null],
        nextId := 2\<rparr>)"
  by (simp add: grantPermission_def newAcl_def save_def validate_def db_admin_def const_defs
        example_defs)

text \<open>
  Claim C5, amended: a permission outside the four values is rejected with the error
  \<open>InvalidPermission\<close>; the grantee type \<open>user\<close> with an id that belongs to no user is
  rejected with \<open>UserNotFound\<close>; both leave the database as it was. The combination of
  grantee type and fields is not checked: for a valid permission and resource type,
  the grantee type \<open>user\<close> with no id is accepted and one record with an empty grantee id
  is appended.
\<close>

theorem grantPermission_rejections:
  "(p \<notin> {''read'', ''write'', ''delete'', ''admin''} \<longrightarrow>
      grantPermission d now rt rid gt gid gn p gby e = (Inl (InvalidPermission p), d))
   \<and> (p \<in> {''read'', ''write'', ''delete'', ''admin''} \<and> gt = ''user'' \<and> gid = Some g \<and>
        users d g = None \<longrightarrow>
      grantPermission d now rt rid gt gid gn p gby e = (Inl (UserNotFound g), d))
   \<and> (p \<in> {''read'', ''write'', ''delete'', ''admin''} \<and>
        rt \<in> {''document'', ''folder'', ''system''} \<longrightarrow>
      (\<exists>a. grantPermission d now rt rid ''user'' None gn p gby e =
               (Inr a, d\<lparr>acls := acls d @ [a], nextId := Suc (nextId d)\<rparr>)
           \<and> granteeType a = ''user'' \<and> granteeId a = None))"
proof (intro conjI impI)
  assume "p \<notin> {''read'', ''write'', ''delete'', ''admin''}"
  then show "grantPermission d now rt rid gt gid gn p gby e = (Inl (InvalidPermission p), d)"
    unfolding grantPermission_def PERMISSIONS_values_set by simp
next
  assume "p \<in> {''read'', ''write'', ''delete'', ''admin''} \<and> gt = ''user'' \<and> gid = Some g \<and>
        users d g = None"
  then show "grantPermission d now rt rid gt gid gn p gby e = (Inl (UserNotFound g), d)"
    unfolding grantPermission_def PERMISSIONS_values_set by simp
next
  assume a: "p \<in> {''read'', ''write'', ''delete'', ''admin''} \<and>
        rt \<in> {''document'', ''folder'', ''system''}"
  then have "validate (newAcl (nextId d) now rt rid ''user'' None gn p gby e) = []"
    by (intro validate_ok) simp_all
  with a show "\<exists>a. grantPermission d now rt rid ''user'' None gn p gby e =
               (Inr a, d\<lparr>acls := acls d @ [a], nextId := Suc (nextId d)\<rparr>)
           \<and> granteeType a = ''user'' \<and> granteeId a = None"
    unfolding grantPermission_def PERMISSIONS_values_set by (simp add: save_def newAcl_def)
qed

theorem grantPermission_rejections_witness:
  "grantPermission db_admin 100 ''document'' 2 ''user'' (Some 7) None ''own'' 7 None
      = (Inl (InvalidPermission ''own''), db_admin)
   \<and> grantPermission db_admin 100 ''document'' 2 ''user'' (Some 9) None ''read'' 7 None
      = (Inl (UserNotFound 9), db_admin)
   \<and> (\<exists>a. grantPermission db_admin 100 ''document'' 2 ''user'' None None ''read'' 7 None
          = (Inr a, db_admin\<lparr>acls := acls db_admin @ [a], nextId := Suc (nextId db_admin)\<rparr>)
        \<and> granteeType a = ''user'' \<and> granteeId a = None)"
  using grantPermission_rejections[where p="''own''" and d=db_admin and now=100
          and rt="''document''" and rid=2 and gt="''user''" and gid="Some 7" and gn=None
          and gby=7 and e=None and g=7]
    grantPermission_rejections[where p="''read''" and d=db_admin and now=100
          and rt="''document''" and rid=2 and gt="''user''" and gid="Some 9" and gn=None
          and gby=7 and e=None and g=9]
  by (simp add: db_admin_def alice_def)

text \<open>
  Claim C8 says that every successful grant inserts a fresh record, that two identical
  calls in a row leave two distinct records, each revocable on its own, and that no
  existing record is changed. The two records of \<open>db_twice\<close> agree on every field
  \<^const>\<open>revokePermission\<close> matches on, and the service has no other way to revoke: one
  call deactivates both.
\<close>

theorem grantPermission_twice_revoked_together:
  "fst (revokePermission db_twice 300 ''document'' 2 ''user'' (Some 7) ''read'') = 2
   \<and> map aclId (acls (snd (revokePermission db_twice 300 ''document'' 2 ''user'' (Some 7) ''read'')))
       = [0, 1, 2]
   \<and> map active (acls (snd (revokePermission db_twice 300 ''document'' 2 ''user'' (Some 7) ''read'')))
       = [True, False, False]"
  by (simp add: revokePermission_def revokeFilter_def db_twice_eq mkAcl_def)

text \<open>
  Claim C8, amended: a successful grant appends one record with a fresh \<open>_id\<close> and leaves
  every stored record and every user as they were; it looks for no earlier grant. The
  same call made again succeeds again and appends a second record with another \<open>_id\<close>.
  The two are not revocable one by one: after any call of \<^const>\<open>revokePermission\<close> the
  two records have the same \<open>active\<close> flag.
\<close>

theorem grantPermission_appends:
  assumes "grantPermission d now rt rid gt gid gn p gby e = (Inr a, d')"
  shows "acls d' = acls d @ [a] \<and> users d' = users d \<and> aclId a = nextId d
    \<and> (\<exists>a2 d2. grantPermission d' now2 rt rid gt gid gn p gby e = (Inr a2, d2)
          \<and> acls d2 = acls d @ [a, a2] \<and> aclId a2 \<noteq> aclId a
          \<and> (\<forall>now3 rt' rid' gt' gid' p'.
                active (acls (snd (revokePermission d2 now3 rt' rid' gt' gid' p')) ! length (acls d))
              = active (acls (snd (revokePermission d2 now3 rt' rid' gt' gid' p')) ! Suc (length (acls d)))))"
proof -
  note g = grantPermission_Inr[OF assms]
  have 1: "acls d' = acls d @ [a]" and 2: "users d' = users d" and n: "nextId d' = Suc (nextId d)"
    unfolding g(2) by simp_all
  have 3: "aclId a = nextId d"
    unfolding g(1) by (simp add: newAcl_def)
  define a2 where "a2 = newAcl (nextId d') now2 rt rid gt gid gn p gby e"
  define d2 where "d2 = d'\<lparr>acls := acls d' @ [a2], nextId := Suc (nextId d')\<rparr>"
  have v: "validate a2 = []"
    unfolding a2_def using g(5) validate_newAcl by metis
  have call: "grantPermission d' now2 rt rid gt gid gn p gby e = (Inr a2, d2)"
    using g(3) g(4) v unfolding grantPermission_def save_def a2_def d2_def 2 by simp
  have acls2: "acls d2 = acls d @ [a, a2]"
    unfolding d2_def by (simp add: 1)
  have ids: "aclId a2 \<noteq> aclId a"
    unfolding a2_def 3 by (simp add: newAcl_def n)
  have nth0: "acls d2 ! length (acls d) = a" and nth1: "acls d2 ! Suc (length (acls d)) = a2"
    unfolding acls2 by (simp_all add: nth_append)
  have len: "length (acls d) < length (acls d2)" "Suc (length (acls d)) < length (acls d2)"
    unfolding acls2 by simp_all
  have same: "revokeFilter rt' rid' gt' gid' p' a = revokeFilter rt' rid' gt' gid' p' a2"
    for rt' rid' gt' gid' p'
    unfolding g(1) a2_def by (simp add: revokeFilter_def newAcl_def)
  have act: "active a = active a2"
    unfolding g(1) a2_def by (simp add: newAcl_def)
  have rev: "\<forall>now3 rt' rid' gt' gid' p'.
                active (acls (snd (revokePermission d2 now3 rt' rid' gt' gid' p')) ! length (acls d))
              = active (acls (snd (revokePermission d2 now3 rt' rid' gt' gid' p')) ! Suc (length (acls d)))"
    by (simp add: revoke_active_nth[OF len(1)] revoke_active_nth[OF len(2)] nth0 nth1 same act)
  from call acls2 ids rev have "\<exists>a2 d2. grantPermission d' now2 rt rid gt gid gn p gby e = (Inr a2, d2)
          \<and> acls d2 = acls d @ [a, a2] \<and> aclId a2 \<noteq> aclId a
          \<and> (\<forall>now3 rt' rid' gt' gid' p'.
                active (acls (snd (revokePermission d2 now3 rt' rid' gt' gid' p')) ! length (acls d))
              = active (acls (snd (revokePermission d2 now3 rt' rid' gt' gid' p')) ! Suc (length (acls d))))"
    by blast
  with 1 2 3 show ?thesis by blast
qed

theorem grantPermission_appends_witness:
  "acls (snd (grantPermission db_admin 100 ''document'' 2 ''user'' (Some 7) None ''read'' 7 None))
     = acls db_admin @ [mkAcl 1 2 ''user'' (Some 7) None ''read'' 100 Null]
   \<and> (\<exists>a2 d2. grantPermission
          (snd (grantPermission db_admin 100 ''document'' 2 ''user'' (Some 7) None ''read'' 7 None))
          200 ''document'' 2 ''user'' (Some 7) None ''read'' 7 None = (Inr a2, d2)
        \<and> acls d2 = acls db_admin @ [mkAcl 1 2 ''user'' (Some 7) None ''read'' 100 Null, a2]
        \<and> aclId a2 \<noteq> 1)"
proof -
  have e: "grantPermission db_admin 100 ''document'' 2 ''user'' (Some 7) None ''read'' 7 None =
     (Inr (mkAcl 1 2 ''user'' (Some 7) None ''read'' 100 Null),
      snd (grantPermission db_admin 100 ''document'' 2 ''user'' (Some 7) None ''read'' 7 None))"
    by (simp add: grantPermission_def newAcl_def save_def validate_def db_admin_def const_defs
          example_defs)
  have i: "aclId (mkAcl 1 2 ''user'' (Some 7) None ''read'' 100 Null) = 1"
    by (simp add: mkAcl_def)
  from grantPermission_appends[OF e, of 200] show ?thesis
    unfolding i by blast
qed

subsection \<open>getResourcePermissions\<close>

text \<open>
  Claim C9 says that \<^const>\<open>getResourcePermissions\<close> returns the active, unexpired grants
  of the resource ordered by \<open>grantedAt\<close>, each with its grantor resolved. The query has
  no sort: the documents come in the natural order of the collection. In
  \<open>db_unordered\<close> that is not the order of \<open>grantedAt\<close>. Only the order is amended;
  what the query does with an \<open>expiresAt\<close> stored as \<^verbatim>\<open>null\<close> is left out of the amended
  statement.
\<close>

theorem getResourcePermissions_not_sorted:
  "map (\<lambda>r. grantedAt (fst r)) (getResourcePermissions db_unordered 100 ''document'' 1) = [20, 10]
   \<and> \<not> sorted (map (\<lambda>r. grantedAt (fst r)) (getResourcePermissions db_unordered 100 ''document'' 1))"
  by (simp add: getResourcePermissions_def populate_def db_unordered_def example_defs
        notExpired_def)

text \<open>
  Claim C9, amended: \<^const>\<open>getResourcePermissions\<close> returns active, unexpired grant
  records of the resource in the natural order of the collection; no order by
  \<open>grantedAt\<close> is imposed. Every record returned is a stored record of the resource that
  is active and whose \<open>expiresAt\<close> is not a date at or before now, paired with the id,
  username and display name of its grantor when that user exists. Every active record
  of the resource whose \<open>expiresAt\<close> is missing or strictly later than now is returned.
  The function takes the database and returns only the list: it writes nothing.
\<close>

theorem getResourcePermissions_natural_order:
  "(\<forall>(a, g)\<in>set (getResourcePermissions d now rt rid).
        a \<in> set (acls d) \<and> resourceType a = rt \<and> resourceId a = rid \<and> active a \<and>
        \<not> (\<exists>t. expiresAt a = At t \<and> t \<le> now) \<and>
        g = (case users d (grantedBy a) of
               None \<Rightarrow> None
             | Some u \<Rightarrow> Some \<lparr>grantorId = grantedBy a, grantorUsername = username u,
                               grantorDisplayName = displayName u\<rparr>))
   \<and> (\<forall>a\<in>set (acls d).
        resourceType a = rt \<and> resourceId a = rid \<and> active a \<and>
        (expiresAt a = Missing \<or> (\<exists>t. expiresAt a = At t \<and> now < t))
        \<longrightarrow> a \<in> set (map fst (getResourcePermissions d now rt rid)))
   \<and> map fst (getResourcePermissions d now rt rid) =
        filter (\<lambda>a. a \<in> set (map fst (getResourcePermissions d now rt rid))) (acls d)"
proof -
  have fst_pop: "map fst (map (populate d) xs) = xs" for xs
    by (induction xs) (simp_all add: populate_def)
  have recs: "map fst (getResourcePermissions d now rt rid) =
     filter (\<lambda>a. resourceType a = rt \<and> resourceId a = rid \<and> active a \<and> notExpired now a) (acls d)"
    unfolding getResourcePermissions_def by (rule fst_pop)
  have ne: "notExpired now a \<Longrightarrow> \<not> (\<exists>t. expiresAt a = At t \<and> t \<le> now)" for a
    unfolding notExpired_iff by auto
  have 1: "\<forall>(a, g)\<in>set (getResourcePermissions d now rt rid).
        a \<in> set (acls d) \<and> resourceType a = rt \<and> resourceId a = rid \<and> active a \<and>
        \<not> (\<exists>t. expiresAt a = At t \<and> t \<le> now) \<and>
        g = (case users d (grantedBy a) of
               None \<Rightarrow> None
             | Some u \<Rightarrow> Some \<lparr>grantorId = grantedBy a, grantorUsername = username u,
                               grantorDisplayName = displayName u\<rparr>)"
    unfolding getResourcePermissions_def using ne by (auto simp: populate_def)
  have 2: "\<forall>a\<in>set (acls d).
        resourceType a = rt \<and> resourceId a = rid \<and> active a \<and>
        (expiresAt a = Missing \<or> (\<exists>t. expiresAt a = At t \<and> now < t))
        \<longrightarrow> a \<in> set (map fst (getResourcePermissions d now rt rid))"
    unfolding recs by (simp add: notExpired_iff)
  have 3: "map fst (getResourcePermissions d now rt rid) =
        filter (\<lambda>a. a \<in> set (map fst (getResourcePermissions d now rt rid))) (acls d)"
    unfolding recs by (rule filter_cong) simp_all
  show ?thesis by (intro conjI 1 2 3)
qed

text \<open>In \<open>db_unordered\<close> both records are returned, in the order of the collection, each
  with alice as grantor.\<close>

theorem getResourcePermissions_natural_order_witness:
  "getResourcePermissions db_unordered 100 ''document'' 1 =
     [(mkAcl 0 1 ''user'' (Some 7) None ''admin'' 20 (At 1000),
       Some \<lparr>grantorId = 7, grantorUsername = ''alice'', grantorDisplayName = Some ''Alice''\<rparr>),
      (mkAcl 1 1 ''public'' None (Some ''public'') ''read'' 10 (At 1000),
       Some \<lparr>grantorId = 7, grantorUsername = ''alice'', grantorDisplayName = Some ''Alice''\<rparr>)]
   \<and> mkAcl 0 1 ''user'' (Some 7) None ''admin'' 20 (At 1000)
        \<in> set (map fst (getResourcePermissions db_unordered 100 ''document'' 1))
   \<and> map fst (getResourcePermissions db_unordered 100 ''document'' 1) = acls db_unordered"
  using getResourcePermissions_natural_order[of db_unordered 100 "''document''" 1]
  by (simp add: getResourcePermissions_def populate_def db_unordered_def example_defs
        notExpired_def)

end
